theory Spec2Isabelle
  imports Main
begin

section \<open>Shared vocabulary\<close>

text \<open>
  Strings are lists of characters; \<open>length\<close> stands for the JavaScript \<open>.length\<close>
  of the string (one list element per code unit). A \<open>uuid\<close> is the text of the
  identifier.

  A \<open>timestamptz\<close> column reaches the client as the text of the stored value (an ISO
  date and time for most instants; other texts for a date before the common era or for
  the values \<open>infinity\<close> and \<open>-infinity\<close>, all of which the column accepts). The
  client turns the text into a Date with \<open>new Date(text)\<close>. A Date (\<open>js_date\<close>) is
  either valid, with a time value in milliseconds since the epoch, or the Invalid Date,
  here \<open>None\<close>. The constructor belongs to the platform and is a parameter
  (\<open>newDate\<close>) of the functions that call it. \<open>new Date()\<close>, the current time, is
  always valid and is given by its time value.
\<close>

type_synonym uuid = string
type_synonym timestamptz = string
type_synonym js_date = "int option"

text \<open>The argument of \<open>toast({ title, description, variant })\<close>.\<close>

record toast_args =
  title :: string
  description :: string
  variant :: "string option"

text \<open>
  The error object of a store response (\<open>error.message\<close> is the only field the
  client reads).
\<close>

record pg_error =
  message :: string

text \<open>
  What \<open>await supabase.from(...)...\<close> produces: the promise resolves to an object
  \<open>{ data, error }\<close>, or it rejects and control passes to the \<open>catch\<close> block.
\<close>

datatype 'a response = Response (data: "'a option") (error: "pg_error option")

datatype 'a awaited = Resolved "'a response" | Rejected

section \<open>License verification (\<open>src/pages/Verify.tsx\<close>)\<close>

subsection \<open>The \<open>licenses\<close> table\<close>

text \<open>
  The seven columns named in the \<open>select\<close> of \<open>handleVerify\<close> form the record
  \<open>license_columns\<close>; a full row of \<open>public.licenses\<close> extends it with the remaining
  columns of the table (\<open>row_id\<close> is the column \<open>id\<close>). \<open>blockchain_hash\<close> is the
  only nullable column.
\<close>

record license_columns =
  license_number :: string
  license_type :: string
  status :: string
  business_name :: string
  issue_date :: timestamptz
  expiry_date :: timestamptz
  blockchain_hash :: "string option"

record license_row = license_columns +
  row_id :: uuid
  application_id :: uuid
  user_id :: uuid
  created_at :: timestamptz
  updated_at :: timestamptz

text \<open>
  \<open>.maybeSingle()\<close>: no row gives \<open>data = null\<close> without an error, one row gives that
  row, several rows give an error and no data.
\<close>

definition multiple_rows_error :: pg_error where
  "multiple_rows_error =
     \<lparr>message = ''JSON object requested, multiple (or no) rows returned''\<rparr>"

fun maybeSingle :: "'a list \<Rightarrow> 'a response" where
  "maybeSingle [] = Response None None"
| "maybeSingle [x] = Response (Some x) None"
| "maybeSingle (x # y # zs) = Response None (Some multiple_rows_error)"

text \<open>
  \<open>supabase.from('licenses').select('license_number, license_type, status,
  business_name, issue_date, expiry_date, blockchain_hash').eq('license_number',
  licenseId).maybeSingle()\<close> answered from a table that is reachable: the rows whose
  \<open>license_number\<close> equals the queried string, projected on the selected columns.
\<close>

definition licenses_select :: "license_row list \<Rightarrow> string \<Rightarrow> license_columns awaited" where
  "licenses_select table licenseId =
     Resolved (maybeSingle (map license_columns.truncate
       (filter (\<lambda>r. license_number r = licenseId) table)))"

subsection \<open>The component state and the result object\<close>

text \<open>
  The object passed to \<open>setVerificationResult\<close>. The no-match branch builds an object
  with the two properties \<open>isValid\<close> and \<open>licenseNumber\<close> only; a property that the
  object does not have is \<open>None\<close>.
\<close>

record verification_result =
  isValid :: bool
  licenseNumber :: string
  businessName :: "string option"
  licenseType :: "string option"
  issueDate :: "string option"
  expiryDate :: "string option"
  status :: "string option"
  blockchainHash :: "string option"

record verify_state =
  licenseId :: string
  verificationResult :: "verification_result option"
  loading :: bool

text \<open>
  The statements of \<open>handleVerify\<close> that act on something outside the function, in
  program order: the event, the state setters, the store, the console (the label and,
  where the source logs the store's error object, that object), the toast.
\<close>

datatype verify_effect =
    PreventDefault
  | SetLoading bool
  | SetVerificationResult "verification_result option"
  | Select string
  | ConsoleError string "pg_error option"
  | Toast toast_args

text \<open>
  The JavaScript \<open>a < b\<close> of a Date and the current time: both are converted to
  their time values, and every comparison with the \<open>NaN\<close> of an Invalid Date is false.
\<close>

definition date_less :: "js_date \<Rightarrow> int \<Rightarrow> bool" where
  "date_less a b = (case a of None \<Rightarrow> False | Some t \<Rightarrow> t < b)"

text \<open>The JavaScript \<open>a || b\<close> on a nullable string: \<open>null\<close> and \<open>""\<close> are falsy.\<close>

definition or_else :: "string option \<Rightarrow> string \<Rightarrow> string" where
  "or_else a b = (case a of None \<Rightarrow> b | Some x \<Rightarrow> if x = [] then b else x)"

text \<open>
  \<open>handleVerify\<close>. \<open>newDate\<close> is the platform's \<open>new Date(text)\<close>,
  \<open>toLocaleDateString\<close> its formatter with the options of the source (\<open>en-US\<close>, long
  month), \<open>store\<close> answers the query, \<open>now\<close> is the time value of \<open>new Date()\<close>.
  The error branch sets \<open>loading\<close> and returns; the \<open>finally\<close> block runs on every
  path.
\<close>

definition handleVerify ::
  "(timestamptz \<Rightarrow> js_date) \<Rightarrow> (js_date \<Rightarrow> string) \<Rightarrow>
   (string \<Rightarrow> license_columns awaited) \<Rightarrow> int \<Rightarrow>
   verify_state \<Rightarrow> verify_effect list" where
  "handleVerify newDate toLocaleDateString store now s =
     [PreventDefault, SetLoading True, SetVerificationResult None, Select (licenseId s)] @
     (case store (licenseId s) of
        Rejected \<Rightarrow>
          [ConsoleError ''Unexpected error:'' None,
           Toast \<lparr>title = ''Error'', description = ''An unexpected error occurred.'',
                  variant = Some ''destructive''\<rparr>]
      | Resolved resp \<Rightarrow>
          (case error resp of
             Some err \<Rightarrow>
               [ConsoleError ''Verification error:'' (Some err),
                Toast \<lparr>title = ''Error'',
                       description = ''Failed to verify license. Please try again.'',
                       variant = Some ''destructive''\<rparr>,
                SetLoading False]
           | None \<Rightarrow>
               (case data resp of
                  None \<Rightarrow>
                    [SetVerificationResult (Some
                       \<lparr>isValid = False,
                        licenseNumber = licenseId s,
                        businessName = None, licenseType = None, issueDate = None,
                        expiryDate = None, status = None, blockchainHash = None\<rparr>)]
                | Some d \<Rightarrow>
                    (let expiryDate = newDate (expiry_date d);
                         isExpired = date_less expiryDate now
                     in [SetVerificationResult (Some
                       \<lparr>isValid = (\<not> isExpired \<and> license_columns.status d = ''active''),
                        licenseNumber = license_number d,
                        businessName = Some (business_name d),
                        licenseType = Some (license_type d),
                        issueDate = Some (toLocaleDateString (newDate (issue_date d))),
                        expiryDate = Some (toLocaleDateString (newDate (expiry_date d))),
                        status = Some (if isExpired then ''Expired''
                                       else license_columns.status d),
                        blockchainHash = Some (or_else (blockchain_hash d) ''N/A'')\<rparr>)])))) @
     [SetLoading False]"

text \<open>The state setters change the component state; the other effects leave it.\<close>

fun apply_effect :: "verify_effect \<Rightarrow> verify_state \<Rightarrow> verify_state" where
  "apply_effect (SetLoading b) s = s\<lparr>loading := b\<rparr>"
| "apply_effect (SetVerificationResult r) s = s\<lparr>verificationResult := r\<rparr>"
| "apply_effect PreventDefault s = s"
| "apply_effect (Select q) s = s"
| "apply_effect (ConsoleError m e) s = s"
| "apply_effect (Toast t) s = s"

definition run :: "verify_effect list \<Rightarrow> verify_state \<Rightarrow> verify_state" where
  "run effects s = fold apply_effect effects s"

text \<open>The component state once \<open>handleVerify\<close> has finished.\<close>

definition verify ::
  "(timestamptz \<Rightarrow> js_date) \<Rightarrow> (js_date \<Rightarrow> string) \<Rightarrow>
   (string \<Rightarrow> license_columns awaited) \<Rightarrow> int \<Rightarrow>
   verify_state \<Rightarrow> verify_state" where
  "verify newDate toLocaleDateString store now s =
     run (handleVerify newDate toLocaleDateString store now s) s"

text \<open>
  The result panel of the JSX: nothing while \<open>verificationResult\<close> is null, the
  details when \<open>isValid\<close>, the "Invalid License" banner otherwise.
\<close>

datatype panel = NoPanel | InvalidLicense | LicenseVerified verification_result

definition render :: "verify_state \<Rightarrow> panel" where
  "render s =
     (case verificationResult s of
        None \<Rightarrow> NoPanel
      | Some r \<Rightarrow> if isValid r then LicenseVerified r else InvalidLicense)"

section \<open>Application intake (the \<open>Apply\<close> page)\<close>

subsection \<open>The form data and \<open>applicationSchema\<close>\<close>

text \<open>
  \<open>ApplicationFormData\<close>, the object the form hands to the resolver. The record is
  extensible: whatever further properties a caller attaches to the object (a
  \<open>status\<close>, say) sit in its \<open>more\<close> part, which no function below reads.
\<close>

record ApplicationFormData =
  license_type :: string
  business_name :: string
  registration_number :: string
  business_address :: string
  contact_person :: string
  contact_email :: string
  phone_number :: string
  business_type :: string
  business_description :: string

text \<open>A validation issue: the field it is attached to and the message of the check.\<close>

datatype issue = Issue (path: string) (issue_message: string)

text \<open>
  The checks of \<open>z.string()\<close>: \<open>.min(n, msg)\<close> fails when the length is below \<open>n\<close>,
  \<open>.max(n, msg)\<close> when it is above \<open>n\<close>, \<open>.email(msg)\<close> when the library's
  pattern for addresses (the parameter \<open>isEmail\<close>) does not match. Every check of a
  field runs, and each failing check reports one issue.
\<close>

definition min_check :: "nat \<Rightarrow> string \<Rightarrow> string \<Rightarrow> string \<Rightarrow> issue list" where
  "min_check n msg field v = (if length v < n then [Issue field msg] else [])"

definition max_check :: "nat \<Rightarrow> string \<Rightarrow> string \<Rightarrow> string \<Rightarrow> issue list" where
  "max_check n msg field v = (if length v > n then [Issue field msg] else [])"

definition email_check :: "(string \<Rightarrow> bool) \<Rightarrow> string \<Rightarrow> string \<Rightarrow> string \<Rightarrow> issue list" where
  "email_check isEmail msg field v = (if isEmail v then [] else [Issue field msg])"

definition applicationSchema ::
  "(string \<Rightarrow> bool) \<Rightarrow> 'a ApplicationFormData_scheme \<Rightarrow> issue list" where
  "applicationSchema isEmail d =
     min_check 1 ''Please select a license type'' ''license_type''
       (ApplicationFormData.license_type d) @
     min_check 2 ''Business name must be at least 2 characters'' ''business_name''
       (ApplicationFormData.business_name d) @
     max_check 200 ''Business name is too long'' ''business_name''
       (ApplicationFormData.business_name d) @
     min_check 3 ''Registration number is required'' ''registration_number''
       (registration_number d) @
     max_check 50 ''Registration number is too long'' ''registration_number''
       (registration_number d) @
     min_check 10 ''Please provide a complete address'' ''business_address''
       (business_address d) @
     max_check 500 ''Address is too long'' ''business_address'' (business_address d) @
     min_check 2 ''Contact person name is required'' ''contact_person'' (contact_person d) @
     max_check 100 ''Name is too long'' ''contact_person'' (contact_person d) @
     email_check isEmail ''Please provide a valid email address'' ''contact_email''
       (contact_email d) @
     max_check 255 ''Email is too long'' ''contact_email'' (contact_email d) @
     min_check 10 ''Please provide a valid phone number'' ''phone_number'' (phone_number d) @
     max_check 20 ''Phone number is too long'' ''phone_number'' (phone_number d) @
     min_check 1 ''Please select a business type'' ''business_type'' (business_type d) @
     min_check 20 ''Please provide a detailed description (at least 20 characters)''
       ''business_description'' (business_description d) @
     max_check 1000 ''Description is too long'' ''business_description''
       (business_description d)"

text \<open>
  \<open>zodResolver\<close> turns the issues into the form's field errors: it goes through the
  issues in order and records an issue only when its field has no error yet, so each
  field keeps its first issue.
\<close>

fun fieldErrors :: "string list \<Rightarrow> issue list \<Rightarrow> issue list" where
  "fieldErrors seen [] = []"
| "fieldErrors seen (i # is) =
     (if path i \<in> set seen then fieldErrors seen is
      else i # fieldErrors (path i # seen) is)"

subsection \<open>The session and the \<open>user\<close> state\<close>

text \<open>
  The user object of a session (\<open>uid\<close> is its \<open>id\<close>) and the session object of the
  authentication client (\<open>sess_user\<close> is \<open>session.user\<close>).
\<close>

record session_user =
  uid :: uuid


text \<open>The object passed to \<open>.insert(...)\<close> on \<open>license_applications\<close>.\<close>

record application_insert =
  user_id :: uuid
  license_type :: string
  business_name :: string
  registration_number :: string
  business_address :: string
  contact_person :: string
  contact_email :: string
  phone_number :: string
  business_type :: string
  business_description :: string
  status :: string

text \<open>
  What the \<open>Apply\<close> page does to the outside, in program order: the errors the form
  shows under its fields, the \<open>user\<close> state setter, toasts, navigation, the loading
  flag, the insert sent to the store, the console.
\<close>

datatype submit_effect =
    FormErrors "issue list"
  | SetUser session_user
  | ApplyToast toast_args
  | Navigate string
  | ApplySetLoading bool
  | Insert application_insert
  | ApplyConsoleError string "pg_error option"









subsection \<open>\<open>onSubmit\<close>\<close>

text \<open>
  \<open>onSubmit\<close>. \<open>user\<close> is the component's \<open>user\<close> state when the handler runs and
  \<open>store\<close> answers the insert (the response of an insert carries no data). A
  store error with an empty message falls back to the fixed text.
\<close>

definition onSubmit ::
  "(application_insert \<Rightarrow> unit awaited) \<Rightarrow> session_user option \<Rightarrow>
   'a ApplicationFormData_scheme \<Rightarrow> submit_effect list" where
  "onSubmit store user d =
     (case user of
        None \<Rightarrow>
          [ApplyToast \<lparr>title = ''Authentication Required'',
                       description = ''Please log in to submit an application.'',
                       variant = Some ''destructive''\<rparr>,
           Navigate ''/login'']
      | Some u \<Rightarrow>
          (let row = \<lparr>user_id = uid u,
                      license_type = ApplicationFormData.license_type d,
                      business_name = ApplicationFormData.business_name d,
                      registration_number = ApplicationFormData.registration_number d,
                      business_address = ApplicationFormData.business_address d,
                      contact_person = ApplicationFormData.contact_person d,
                      contact_email = ApplicationFormData.contact_email d,
                      phone_number = ApplicationFormData.phone_number d,
                      business_type = ApplicationFormData.business_type d,
                      business_description = ApplicationFormData.business_description d,
                      status = ''pending''\<rparr>
           in [ApplySetLoading True, Insert row] @
              (case store row of
                 Rejected \<Rightarrow>
                   [ApplyConsoleError ''Unexpected error:'' None,
                    ApplyToast \<lparr>title = ''Error'',
                       description = ''An unexpected error occurred. Please try again.'',
                       variant = Some ''destructive''\<rparr>]
               | Resolved resp \<Rightarrow>
                   (case error resp of
                      Some err \<Rightarrow>
                        [ApplyConsoleError ''Application submission error:'' (Some err),
                         ApplyToast \<lparr>title = ''Submission Failed'',
                            description = (if message err = [] then
                               ''Failed to submit application. Please try again.''
                               else message err),
                            variant = Some ''destructive''\<rparr>]
                    | None \<Rightarrow>
                        [ApplyToast \<lparr>title = ''Application Submitted'',
                            description =
                              ''Your license application has been submitted successfully!'',
                            variant = None\<rparr>,
                         Navigate ''/dashboard''])) @
              [ApplySetLoading False]))"

text \<open>
  \<open>form.handleSubmit(onSubmit)\<close> with \<open>zodResolver(applicationSchema)\<close>: the data
  is validated first; \<open>onSubmit\<close> is called only when the schema reports no issue,
  otherwise the first issue of each field becomes that field's error.
\<close>

definition handleSubmit ::
  "(string \<Rightarrow> bool) \<Rightarrow> (application_insert \<Rightarrow> unit awaited) \<Rightarrow> session_user option \<Rightarrow>
   'a ApplicationFormData_scheme \<Rightarrow> submit_effect list" where
  "handleSubmit isEmail store user d =
     (case applicationSchema isEmail d of
        [] \<Rightarrow> onSubmit store user d
      | i # is \<Rightarrow> [FormErrors (fieldErrors [] (i # is))])"

text \<open>The rows that a list of effects sends to the store.\<close>

fun inserts :: "submit_effect list \<Rightarrow> application_insert list" where
  "inserts [] = []"
| "inserts (Insert row # es) = row # inserts es"
| "inserts (e # es) = inserts es"

section \<open>Example data\<close>

text \<open>
  Concrete inputs on which the theorems below are instantiated. \<open>example_Date\<close> is the
  Date constructor on the texts that the example rows hold: the two ISO texts have the
  time values of 1 January 2024 and 1 January 2030 (00:00 UTC), and \<open>-infinity\<close>, like
  any text that is not a date, gives the Invalid Date. The rows are an active license
  that expires at the start of 2030, a copy of it with other private columns, a copy
  whose hash is the empty string, a suspended license, and an active license whose
  stored expiry is \<open>-infinity\<close>, a value before every instant.
\<close>

definition example_Date :: "timestamptz \<Rightarrow> js_date" where
  "example_Date txt =
     (if txt = ''2024-01-01T00:00:00+00:00'' then Some 1704067200000
      else if txt = ''2030-01-01T00:00:00+00:00'' then Some 1893456000000
      else None)"

definition sample_formatter :: "js_date \<Rightarrow> string" where
  "sample_formatter date =
     (case date of
        None \<Rightarrow> ''Invalid Date''
      | Some t \<Rightarrow> if t < 1893456000000 then ''before 2030'' else ''2030 or later'')"

definition acme_license :: license_row where
  "acme_license =
     \<lparr>license_number = ''LIC-2024-00001'', license_type = ''Trade License'',
      status = ''active'', business_name = ''Acme Traders'',
      issue_date = ''2024-01-01T00:00:00+00:00'',
      expiry_date = ''2030-01-01T00:00:00+00:00'',
      blockchain_hash = None,
      row_id = ''11111111-aaaa'', application_id = ''22222222-bbbb'',
      user_id = ''33333333-cccc'', created_at = ''2024-01-01T00:00:00+00:00'',
      updated_at = ''2024-01-01T00:00:00+00:00''\<rparr>"

definition acme_license_other_owner :: license_row where
  "acme_license_other_owner =
     acme_license\<lparr>row_id := ''99999999-zzzz'', application_id := ''88888888-yyyy'',
                   license_row.user_id := ''77777777-xxxx'',
                   created_at := ''2025-05-05T00:00:00+00:00'',
                   updated_at := ''2025-06-06T00:00:00+00:00''\<rparr>"

definition acme_license_empty_hash :: license_row where
  "acme_license_empty_hash = acme_license\<lparr>blockchain_hash := Some []\<rparr>"

definition suspended_license :: license_row where
  "suspended_license =
     acme_license\<lparr>license_number := ''LIC-2024-00002'',
                   license_columns.status := ''suspended''\<rparr>"

definition lapsed_license :: license_row where
  "lapsed_license =
     acme_license\<lparr>license_number := ''LIC-2024-00003'', expiry_date := ''-infinity''\<rparr>"

text \<open>
  A component state that still shows the result of an earlier query, a store that
  answers every query with an error, a store that accepts every insert, a session with
  its user, a pattern for addresses, and form objects.
\<close>

definition stale_result :: verification_result where
  "stale_result =
     \<lparr>isValid = True, licenseNumber = ''LIC-2023-00777'',
      businessName = Some ''Earlier Ltd'', licenseType = Some ''Food License'',
      issueDate = Some ''before 2030'', expiryDate = Some ''2030 or later'',
      status = Some ''active'', blockchainHash = Some ''0xabc''\<rparr>"

definition query_state :: "string \<Rightarrow> verify_state" where
  "query_state q = \<lparr>licenseId = q, verificationResult = Some stale_result, loading = False\<rparr>"

definition failing_store :: "string \<Rightarrow> license_columns awaited" where
  "failing_store q = Resolved (Response None (Some \<lparr>message = ''Failed to fetch''\<rparr>))"

definition accepting_store :: "application_insert \<Rightarrow> unit awaited" where
  "accepting_store row = Resolved (Response None None)"

definition alice :: session_user where
  "alice = \<lparr>uid = ''33333333-cccc''\<rparr>"


definition contains_at :: "string \<Rightarrow> bool" where
  "contains_at v = (CHR ''@'' \<in> set v)"

definition acme_form :: ApplicationFormData where
  "acme_form =
     \<lparr>ApplicationFormData.license_type = ''trade'',
      ApplicationFormData.business_name = ''Acme Traders'',
      ApplicationFormData.registration_number = ''REG-001'',
      ApplicationFormData.business_address = ''12 Market Street, Pune'',
      ApplicationFormData.contact_person = ''A. Rao'',
      ApplicationFormData.contact_email = ''rao@acme.example'',
      ApplicationFormData.phone_number = ''9123456780'',
      ApplicationFormData.business_type = ''retail'',
      ApplicationFormData.business_description = ''Retail trade in household hardware.''\<rparr>"

text \<open>The same form object with a description of 19 characters.\<close>

definition short_description_form :: ApplicationFormData where
  "short_description_form =
     acme_form\<lparr>ApplicationFormData.business_description := ''Nineteen characters''\<rparr>"

text \<open>A form object to which the caller has attached a \<open>status\<close> property.\<close>

record form_with_status = ApplicationFormData +
  status :: string

definition tampered_form :: form_with_status where
  "tampered_form = ApplicationFormData.extend acme_form (form_with_status.fields ''approved'')"

section \<open>Auxiliary facts\<close>

lemma truncate_fields [simp]:
  "license_number (license_columns.truncate r) = license_number r"
  "license_columns.license_type (license_columns.truncate r) = license_columns.license_type r"
  "license_columns.status (license_columns.truncate r) = license_columns.status r"
  "license_columns.business_name (license_columns.truncate r) = license_columns.business_name r"
  "issue_date (license_columns.truncate r) = issue_date r"
  "expiry_date (license_columns.truncate r) = expiry_date r"
  "blockchain_hash (license_columns.truncate r) = blockchain_hash r"
  by (simp_all add: license_columns.truncate_def)

text \<open>The result that \<open>handleVerify\<close> leaves in the state, branch by branch.\<close>

lemma verify_match:
  assumes "store (licenseId s) = Resolved (Response (Some d) None)"
  shows "verificationResult (verify newDate fmt store now s) = Some
     \<lparr>isValid = (\<not> date_less (newDate (expiry_date d)) now \<and>
                 license_columns.status d = ''active''),
      licenseNumber = license_number d,
      businessName = Some (license_columns.business_name d),
      licenseType = Some (license_columns.license_type d),
      issueDate = Some (fmt (newDate (issue_date d))),
      expiryDate = Some (fmt (newDate (expiry_date d))),
      status = Some (if date_less (newDate (expiry_date d)) now then ''Expired''
                     else license_columns.status d),
      blockchainHash = Some (or_else (blockchain_hash d) ''N/A'')\<rparr>"
  using assms by (simp add: verify_def run_def handleVerify_def Let_def)

lemma verify_no_match:
  assumes "store (licenseId s) = Resolved (Response None None)"
  shows "verificationResult (verify newDate fmt store now s) = Some
     \<lparr>isValid = False, licenseNumber = licenseId s,
      businessName = None, licenseType = None, issueDate = None,
      expiryDate = None, status = None, blockchainHash = None\<rparr>"
  using assms by (simp add: verify_def run_def handleVerify_def)

lemma verify_error:
  assumes "store (licenseId s) = Resolved (Response x (Some e))"
  shows "verificationResult (verify newDate fmt store now s) = None"
  using assms by (simp add: verify_def run_def handleVerify_def)

lemma verify_rejected:
  assumes "store (licenseId s) = Rejected"
  shows "verificationResult (verify newDate fmt store now s) = None"
  using assms by (simp add: verify_def run_def handleVerify_def)

lemma handleVerify_cong:
  "store1 (licenseId s) = store2 (licenseId s) \<Longrightarrow>
   handleVerify newDate fmt store1 now s = handleVerify newDate fmt store2 now s"
  by (simp add: handleVerify_def)


text \<open>Filtering on \<open>license_number\<close> commutes with the projection on the selected columns.\<close>

lemma select_filter_projection:
  "map license_columns.truncate (filter (\<lambda>r. license_number r = q) table) =
   filter (\<lambda>c. license_number c = q) (map license_columns.truncate table)"
  by (induction table) simp_all

lemma licenses_select_projection:
  "map license_columns.truncate t1 = map license_columns.truncate t2 \<Longrightarrow>
   licenses_select t1 q = licenses_select t2 q"
  by (simp add: licenses_select_def select_filter_projection)


lemma select_no_match:
  "\<forall>r \<in> set table. license_number r \<noteq> q \<Longrightarrow>
   licenses_select table q = Resolved (Response None None)"
  by (simp add: licenses_select_def filter_False)

text \<open>What the example stores answer, and the columns of the example rows.\<close>

lemma select_acme:
  "licenses_select [acme_license] (licenseId (query_state ''LIC-2024-00001'')) =
     Resolved (Response (Some (license_columns.truncate acme_license)) None)"
  by (simp add: licenses_select_def query_state_def acme_license_def)

lemma select_suspended:
  "licenses_select [suspended_license] (licenseId (query_state ''LIC-2024-00002'')) =
     Resolved (Response (Some (license_columns.truncate suspended_license)) None)"
  by (simp add: licenses_select_def query_state_def suspended_license_def acme_license_def)

lemma select_lapsed:
  "licenses_select [lapsed_license] (licenseId (query_state ''LIC-2024-00003'')) =
     Resolved (Response (Some (license_columns.truncate lapsed_license)) None)"
  by (simp add: licenses_select_def query_state_def lapsed_license_def acme_license_def)

lemma select_empty_hash:
  "licenses_select [acme_license_empty_hash] (licenseId (query_state ''LIC-2024-00001'')) =
     Resolved (Response (Some (license_columns.truncate acme_license_empty_hash)) None)"
  by (simp add: licenses_select_def query_state_def acme_license_empty_hash_def
      acme_license_def)

lemma example_row_columns:
  "license_columns.status acme_license = ''active''"
  "example_Date (expiry_date acme_license) = Some 1893456000000"
  "blockchain_hash acme_license = None"
  "license_columns.status suspended_license = ''suspended''"
  "example_Date (expiry_date suspended_license) = Some 1893456000000"
  "license_columns.status lapsed_license = ''active''"
  "expiry_date lapsed_license = ''-infinity''"
  "example_Date ''-infinity'' = None"
  "blockchain_hash acme_license_empty_hash = Some []"
  by (simp_all add: acme_license_def suspended_license_def lapsed_license_def
      acme_license_empty_hash_def example_Date_def)





text \<open>The only insert of \<open>onSubmit\<close> is the one it builds from the user and the form.\<close>

lemma inserts_append: "inserts (xs @ ys) = inserts xs @ inserts ys"
  by (induction xs rule: inserts.induct) simp_all

lemma inserts_onSubmit:
  "inserts (onSubmit store user d) =
     (case user of None \<Rightarrow> []
      | Some u \<Rightarrow> [\<lparr>user_id = uid u,
                      license_type = ApplicationFormData.license_type d,
                      business_name = ApplicationFormData.business_name d,
                      registration_number = ApplicationFormData.registration_number d,
                      business_address = ApplicationFormData.business_address d,
                      contact_person = ApplicationFormData.contact_person d,
                      contact_email = ApplicationFormData.contact_email d,
                      phone_number = ApplicationFormData.phone_number d,
                      business_type = ApplicationFormData.business_type d,
                      business_description = ApplicationFormData.business_description d,
                      status = ''pending''\<rparr>])"
  by (simp add: onSubmit_def Let_def inserts_append split: option.splits awaited.splits)

lemma inserts_handleSubmit:
  "inserts (handleSubmit isEmail store user d) =
     (if applicationSchema isEmail d = [] then inserts (onSubmit store user d) else [])"
  by (simp add: handleSubmit_def split: list.splits)

lemma handleSubmit_invalid:
  "applicationSchema isEmail d \<noteq> [] \<Longrightarrow>
   handleSubmit isEmail store user d =
     [FormErrors (fieldErrors [] (applicationSchema isEmail d))]"
  by (simp add: handleSubmit_def split: list.splits)

text \<open>An issue that is the first of its field is among the field errors.\<close>

lemma fieldErrors_first:
  "path i \<notin> set seen \<Longrightarrow> \<forall>j \<in> set xs. path j \<noteq> path i \<Longrightarrow>
   i \<in> set (fieldErrors seen (xs @ i # ys))"
  by (induction xs arbitrary: seen) auto

lemma schema_description_issue:
  "length (ApplicationFormData.business_description d) < 20 \<Longrightarrow>
   Issue ''business_description''
      ''Please provide a detailed description (at least 20 characters)''
     \<in> set (applicationSchema isEmail d)"
  by (simp add: applicationSchema_def min_check_def)

lemma schema_description_first:
  assumes "length (ApplicationFormData.business_description d) < 20"
  shows "\<exists>xs ys. applicationSchema isEmail d =
      xs @ Issue ''business_description''
        ''Please provide a detailed description (at least 20 characters)'' # ys \<and>
      (\<forall>j \<in> set xs. path j \<noteq> ''business_description'')"
proof -
  let ?xs = "min_check 1 ''Please select a license type'' ''license_type''
       (ApplicationFormData.license_type d) @
     min_check 2 ''Business name must be at least 2 characters'' ''business_name''
       (ApplicationFormData.business_name d) @
     max_check 200 ''Business name is too long'' ''business_name''
       (ApplicationFormData.business_name d) @
     min_check 3 ''Registration number is required'' ''registration_number''
       (ApplicationFormData.registration_number d) @
     max_check 50 ''Registration number is too long'' ''registration_number''
       (ApplicationFormData.registration_number d) @
     min_check 10 ''Please provide a complete address'' ''business_address''
       (ApplicationFormData.business_address d) @
     max_check 500 ''Address is too long'' ''business_address''
       (ApplicationFormData.business_address d) @
     min_check 2 ''Contact person name is required'' ''contact_person''
       (ApplicationFormData.contact_person d) @
     max_check 100 ''Name is too long'' ''contact_person''
       (ApplicationFormData.contact_person d) @
     email_check isEmail ''Please provide a valid email address'' ''contact_email''
       (ApplicationFormData.contact_email d) @
     max_check 255 ''Email is too long'' ''contact_email''
       (ApplicationFormData.contact_email d) @
     min_check 10 ''Please provide a valid phone number'' ''phone_number''
       (ApplicationFormData.phone_number d) @
     max_check 20 ''Phone number is too long'' ''phone_number''
       (ApplicationFormData.phone_number d) @
     min_check 1 ''Please select a business type'' ''business_type''
       (ApplicationFormData.business_type d)"
  let ?ys = "max_check 1000 ''Description is too long'' ''business_description''
       (ApplicationFormData.business_description d)"
  have "applicationSchema isEmail d =
      ?xs @ Issue ''business_description''
        ''Please provide a detailed description (at least 20 characters)'' # ?ys"
    using assms by (simp add: applicationSchema_def min_check_def [of 20])
  moreover have "\<forall>j \<in> set ?xs. path j \<noteq> ''business_description''"
    by (auto simp: min_check_def max_check_def email_check_def split: if_splits)
  ultimately show ?thesis by blast
qed


lemma tampered_form_valid: "applicationSchema contains_at tampered_form = []"
  by (simp add: applicationSchema_def min_check_def max_check_def email_check_def
      contains_at_def acme_form_def tampered_form_def ApplicationFormData.extend_def)

lemma tampered_form_status: "form_with_status.status tampered_form = ''approved''"
  by (simp add: tampered_form_def ApplicationFormData.extend_def form_with_status.fields_def)

section \<open>License verification: the claims\<close>

text \<open>
  Claim C1, as the code has it by design. For every license row matched by a
  verification lookup whose \<open>expiry_date\<close> the client reads as a valid Date, the
  computed validity flag is true if and only if the stored status equals \<open>active\<close> and
  that date is not before the current time (\<open>now \<le> expiry_date\<close> on the millisecond
  time values). A license with status \<open>suspended\<close> or \<open>revoked\<close> yields validity false
  for every \<open>expiry_date\<close>, and an \<open>active\<close> license whose \<open>expiry_date\<close> is a valid
  Date in the future yields validity true.
\<close>

theorem validity_flag:
  assumes "store (licenseId s) = Resolved (Response (Some d) None)"
  shows "\<exists>r. verificationResult (verify newDate fmt store now s) = Some r \<and>
     (\<forall>t. newDate (expiry_date d) = Some t \<longrightarrow>
        (isValid r \<longleftrightarrow> license_columns.status d = ''active'' \<and> now \<le> t)) \<and>
     (license_columns.status d = ''suspended'' \<or> license_columns.status d = ''revoked''
        \<longrightarrow> \<not> isValid r) \<and>
     (\<forall>t. license_columns.status d = ''active'' \<and> newDate (expiry_date d) = Some t \<and> now < t
        \<longrightarrow> isValid r)"
  using assms verify_match [of store s d newDate fmt now] by (auto simp: date_less_def)

theorem validity_flag_witness:
  "(\<exists>r. verificationResult (verify example_Date sample_formatter
          (licenses_select [acme_license]) 1800000000000
          (query_state ''LIC-2024-00001'')) = Some r \<and> isValid r) \<and>
   (\<exists>r. verificationResult (verify example_Date sample_formatter
          (licenses_select [suspended_license]) 1800000000000
          (query_state ''LIC-2024-00002'')) = Some r \<and> \<not> isValid r)"
  using
    validity_flag [where store = "licenses_select [acme_license]"
      and s = "query_state ''LIC-2024-00001''"
      and d = "license_columns.truncate acme_license"
      and newDate = example_Date and fmt = sample_formatter and now = 1800000000000,
      OF select_acme]
    validity_flag [where store = "licenses_select [suspended_license]"
      and s = "query_state ''LIC-2024-00002''"
      and d = "license_columns.truncate suspended_license"
      and newDate = example_Date and fmt = sample_formatter and now = 1800000000000,
      OF select_suspended]
  by (simp add: example_row_columns)

text \<open>
  Claim C1 as it is written asks for the current time to be strictly before the expiry
  date. At the instant of expiry itself the license of the example is still reported
  valid, although the current time is not strictly before its expiry date.
\<close>

theorem validity_at_expiry_instant_counterexample:
  "example_Date (expiry_date acme_license) = Some 1893456000000 \<and>
   verificationResult (verify example_Date sample_formatter (licenses_select [acme_license])
      1893456000000 (query_state ''LIC-2024-00001'')) =
     Some \<lparr>isValid = True, licenseNumber = ''LIC-2024-00001'',
           businessName = Some ''Acme Traders'', licenseType = Some ''Trade License'',
           issueDate = Some ''before 2030'', expiryDate = Some ''2030 or later'',
           status = Some ''active'', blockchainHash = Some ''N/A''\<rparr> \<and>
   \<not> (isValid \<lparr>isValid = True, licenseNumber = ''LIC-2024-00001'',
           businessName = Some ''Acme Traders'', licenseType = Some ''Trade License'',
           issueDate = Some ''before 2030'', expiryDate = Some ''2030 or later'',
           status = Some ''active'', blockchainHash = Some ''N/A''\<rparr> \<longleftrightarrow>
      license_columns.status acme_license = ''active'' \<and>
      (1893456000000 :: int) < 1893456000000)"
  by (simp add: verify_def run_def handleVerify_def licenses_select_def query_state_def
      acme_license_def sample_formatter_def example_Date_def date_less_def or_else_def
      Let_def)

text \<open>
  Claim C2, evaluated on the code. For a matched license whose \<open>expiry_date\<close> is read
  as a valid Date, the status of the result is \<open>Expired\<close> and the validity flag false
  when that date is before the current time, and the stored status otherwise. When the
  text of \<open>expiry_date\<close> gives the Invalid Date, the comparison is false: the result
  carries the stored status and is valid for an \<open>active\<close> row, however long ago the
  stored expiry lies (the example below is a row that expired at \<open>-infinity\<close>).
\<close>

theorem status_by_expiry_date:
  assumes "store (licenseId s) = Resolved (Response (Some d) None)"
  shows "\<exists>r. verificationResult (verify newDate fmt store now s) = Some r \<and>
     (\<forall>t. newDate (expiry_date d) = Some t \<and> t < now \<longrightarrow>
        verification_result.status r = Some ''Expired'' \<and> \<not> isValid r) \<and>
     (\<forall>t. newDate (expiry_date d) = Some t \<and> \<not> t < now \<longrightarrow>
        verification_result.status r = Some (license_columns.status d)) \<and>
     (newDate (expiry_date d) = None \<longrightarrow>
        verification_result.status r = Some (license_columns.status d) \<and>
        (isValid r \<longleftrightarrow> license_columns.status d = ''active''))"
  using assms verify_match [of store s d newDate fmt now] by (auto simp: date_less_def)

theorem status_by_expiry_date_witness:
  "expiry_date lapsed_license = ''-infinity'' \<and>
   example_Date ''-infinity'' = None \<and>
   (\<exists>r. verificationResult (verify example_Date sample_formatter
          (licenses_select [lapsed_license]) 1800000000000
          (query_state ''LIC-2024-00003'')) = Some r \<and>
        verification_result.status r = Some ''active'' \<and> isValid r) \<and>
   (\<exists>r. verificationResult (verify example_Date sample_formatter
          (licenses_select [suspended_license]) 1893456000001
          (query_state ''LIC-2024-00002'')) = Some r \<and>
        verification_result.status r = Some ''Expired'' \<and> \<not> isValid r)"
  using
    status_by_expiry_date [where store = "licenses_select [lapsed_license]"
      and s = "query_state ''LIC-2024-00003''"
      and d = "license_columns.truncate lapsed_license"
      and newDate = example_Date and fmt = sample_formatter and now = 1800000000000,
      OF select_lapsed]
    status_by_expiry_date [where store = "licenses_select [suspended_license]"
      and s = "query_state ''LIC-2024-00002''"
      and d = "license_columns.truncate suspended_license"
      and newDate = example_Date and fmt = sample_formatter and now = 1893456000001,
      OF select_suspended]
  by (simp add: example_row_columns)

text \<open>
  Claim C3. For every queried license number with no matching row, verification sets a
  result that carries exactly \<open>isValid = false\<close> and the queried number, with no
  license detail field. The effects and the result are the same function of the queried
  string for every string: nothing tells a malformed number from a well-formed number
  that no license has.
\<close>

theorem no_match_uniform_response:
  assumes "\<forall>r \<in> set table. license_number r \<noteq> licenseId s"
  shows "handleVerify newDate fmt (licenses_select table) now s =
      [PreventDefault, SetLoading True, SetVerificationResult None, Select (licenseId s),
       SetVerificationResult (Some \<lparr>isValid = False, licenseNumber = licenseId s,
          businessName = None, licenseType = None, issueDate = None,
          expiryDate = None, status = None, blockchainHash = None\<rparr>),
       SetLoading False]
    \<and> verificationResult (verify newDate fmt (licenses_select table) now s) =
       Some \<lparr>isValid = False, licenseNumber = licenseId s,
          businessName = None, licenseType = None, issueDate = None,
          expiryDate = None, status = None, blockchainHash = None\<rparr>"
  using select_no_match [OF assms]
    verify_no_match [of "licenses_select table" s newDate fmt now]
  by (simp add: handleVerify_def)

theorem no_match_uniform_response_witness:
  "verificationResult (verify example_Date sample_formatter
      (licenses_select [acme_license, suspended_license])
      1800000000000 (query_state ''LIC-2024-12345'')) =
     Some \<lparr>isValid = False, licenseNumber = ''LIC-2024-12345'',
           businessName = None, licenseType = None, issueDate = None,
           expiryDate = None, status = None, blockchainHash = None\<rparr> \<and>
   verificationResult (verify example_Date sample_formatter
      (licenses_select [acme_license, suspended_license])
      1800000000000 (query_state ''not a license number!'')) =
     Some \<lparr>isValid = False, licenseNumber = ''not a license number!'',
           businessName = None, licenseType = None, issueDate = None,
           expiryDate = None, status = None, blockchainHash = None\<rparr>"
  using
    no_match_uniform_response [where table = "[acme_license, suspended_license]"
      and s = "query_state ''LIC-2024-12345''"
      and newDate = example_Date and fmt = sample_formatter and now = 1800000000000]
    no_match_uniform_response [where table = "[acme_license, suspended_license]"
      and s = "query_state ''not a license number!''"
      and newDate = example_Date and fmt = sample_formatter and now = 1800000000000]
  by (simp add: query_state_def acme_license_def suspended_license_def)

text \<open>
  Claim C4. The anonymous verification path retrieves the columns \<open>license_number\<close>,
  \<open>license_type\<close>, \<open>status\<close>, \<open>business_name\<close>, \<open>issue_date\<close>,
  \<open>expiry_date\<close> and \<open>blockchain_hash\<close> only: two tables whose rows agree on these
  columns, whatever their \<open>id\<close>, \<open>user_id\<close> and \<open>application_id\<close> (and their
  \<open>created_at\<close> and \<open>updated_at\<close>), give the same effects and the same final state for
  every queried string.
\<close>

theorem private_columns_not_exposed:
  assumes "map license_columns.truncate t1 = map license_columns.truncate t2"
  shows "handleVerify newDate fmt (licenses_select t1) now s =
         handleVerify newDate fmt (licenses_select t2) now s \<and>
         verify newDate fmt (licenses_select t1) now s =
         verify newDate fmt (licenses_select t2) now s"
proof -
  have "handleVerify newDate fmt (licenses_select t1) now s =
        handleVerify newDate fmt (licenses_select t2) now s"
    by (rule handleVerify_cong) (rule licenses_select_projection [OF assms])
  then show ?thesis by (simp add: verify_def)
qed

theorem private_columns_not_exposed_witness:
  "row_id acme_license \<noteq> row_id acme_license_other_owner \<and>
   license_row.user_id acme_license \<noteq> license_row.user_id acme_license_other_owner \<and>
   application_id acme_license \<noteq> application_id acme_license_other_owner \<and>
   verify example_Date sample_formatter (licenses_select [acme_license]) 1800000000000
      (query_state ''LIC-2024-00001'') =
   verify example_Date sample_formatter (licenses_select [acme_license_other_owner])
      1800000000000 (query_state ''LIC-2024-00001'')"
  using private_columns_not_exposed [where ?t1.0 = "[acme_license]"
      and ?t2.0 = "[acme_license_other_owner]"
      and newDate = example_Date and fmt = sample_formatter and now = 1800000000000
      and s = "query_state ''LIC-2024-00001''"]
  by (simp add: acme_license_def acme_license_other_owner_def license_columns.truncate_def)

text \<open>
  Claim C8. For every matched license whose stored \<open>blockchain_hash\<close> is null or the
  empty string, the hash of the verification result is the string \<open>N/A\<close>; the effects
  of the verification are those of the same row with a null hash, so an empty hash cannot
  be told from an absent one.
\<close>

theorem empty_hash_sentinel:
  assumes "store (licenseId s) = Resolved (Response (Some d) None)"
    and "blockchain_hash d = None \<or> blockchain_hash d = Some []"
  shows "(\<exists>r. verificationResult (verify newDate fmt store now s) = Some r \<and>
            blockchainHash r = Some ''N/A'') \<and>
         handleVerify newDate fmt store now s =
         handleVerify newDate fmt
           (\<lambda>q. Resolved (Response (Some (d\<lparr>blockchain_hash := None\<rparr>)) None)) now s"
proof -
  have "\<exists>r. verificationResult (verify newDate fmt store now s) = Some r \<and>
            blockchainHash r = Some ''N/A''"
    using assms verify_match [of store s d newDate fmt now] by (auto simp: or_else_def)
  moreover have "handleVerify newDate fmt store now s =
         handleVerify newDate fmt
           (\<lambda>q. Resolved (Response (Some (d\<lparr>blockchain_hash := None\<rparr>)) None)) now s"
    using assms by (auto simp: handleVerify_def or_else_def Let_def)
  ultimately show ?thesis by simp
qed

theorem empty_hash_sentinel_witness:
  "(\<exists>r. verificationResult (verify example_Date sample_formatter
          (licenses_select [acme_license_empty_hash])
          1800000000000 (query_state ''LIC-2024-00001'')) = Some r \<and>
        blockchainHash r = Some ''N/A'') \<and>
   (\<exists>r. verificationResult (verify example_Date sample_formatter
          (licenses_select [acme_license])
          1800000000000 (query_state ''LIC-2024-00001'')) = Some r \<and>
        blockchainHash r = Some ''N/A'')"
  using
    empty_hash_sentinel [where store = "licenses_select [acme_license_empty_hash]"
      and s = "query_state ''LIC-2024-00001''"
      and d = "license_columns.truncate acme_license_empty_hash"
      and newDate = example_Date and fmt = sample_formatter and now = 1800000000000,
      OF select_empty_hash]
    empty_hash_sentinel [where store = "licenses_select [acme_license]"
      and s = "query_state ''LIC-2024-00001''"
      and d = "license_columns.truncate acme_license"
      and newDate = example_Date and fmt = sample_formatter and now = 1800000000000,
      OF select_acme]
  by (simp add: example_row_columns)



text \<open>
  Claim C10. Every verification attempt sets the displayed result to null before it
  queries the store: the first four effects are the event's \<open>preventDefault\<close>, the loading
  flag, the clearing of the result, and then the query. Consequently, when the lookup
  returns an error, the result in the final state is null and the page shows no result
  panel, whatever was displayed before.
\<close>

theorem result_cleared_before_query:
  "take 4 (handleVerify newDate fmt store now s) =
     [PreventDefault, SetLoading True, SetVerificationResult None, Select (licenseId s)] \<and>
   verificationResult (run (take 3 (handleVerify newDate fmt store now s)) s) = None \<and>
   (store (licenseId s) = Resolved (Response x (Some e)) \<longrightarrow>
      verificationResult (verify newDate fmt store now s) = None \<and>
      render (verify newDate fmt store now s) = NoPanel)"
  using verify_error [of store s x e newDate fmt now]
  by (simp add: handleVerify_def run_def render_def)

theorem result_cleared_before_query_witness:
  "verificationResult (query_state ''LIC-2024-00001'') = Some stale_result \<and>
   failing_store (licenseId (query_state ''LIC-2024-00001'')) =
     Resolved (Response None (Some \<lparr>message = ''Failed to fetch''\<rparr>)) \<and>
   verificationResult (verify example_Date sample_formatter failing_store 1800000000000
      (query_state ''LIC-2024-00001'')) = None \<and>
   render (verify example_Date sample_formatter failing_store 1800000000000
      (query_state ''LIC-2024-00001'')) = NoPanel"
  using result_cleared_before_query [where newDate = example_Date
      and fmt = sample_formatter and store = failing_store and now = 1800000000000
      and s = "query_state ''LIC-2024-00001''" and x = None
      and e = "\<lparr>message = ''Failed to fetch''\<rparr>"]
  by (simp add: failing_store_def query_state_def)

section \<open>Application intake: the claims\<close>




text \<open>
  Claim C6. Every application row that the submission operation inserts has status
  \<open>pending\<close>, whatever the form object carries besides its nine fields (a \<open>status\<close>
  supplied by the client included).
\<close>

theorem inserted_status_pending:
  "(\<forall>row \<in> set (inserts (onSubmit store user d)).
       application_insert.status row = ''pending'') \<and>
   (\<forall>row \<in> set (inserts (handleSubmit isEmail store user d)).
       application_insert.status row = ''pending'')"
  by (cases user) (simp_all add: inserts_handleSubmit inserts_onSubmit)

theorem inserted_status_pending_witness:
  "form_with_status.status tampered_form = ''approved'' \<and>
   map application_insert.status
     (inserts (handleSubmit contains_at accepting_store (Some alice) tampered_form)) =
     [''pending'']"
  using inserted_status_pending [where store = accepting_store and user = "Some alice"
      and d = tampered_form and isEmail = contains_at]
  by (simp add: inserts_handleSubmit inserts_onSubmit tampered_form_valid
      tampered_form_status)

text \<open>
  Claim C7. For every submission whose \<open>business_description\<close> is shorter than 20
  characters (19, for example), validation reports the error of that field, the form
  shows it among its field errors instead of calling \<open>onSubmit\<close>, and no insert is sent
  to the store.
\<close>

theorem short_description_rejected:
  assumes "length (ApplicationFormData.business_description d) < 20"
  shows "Issue ''business_description''
      ''Please provide a detailed description (at least 20 characters)''
     \<in> set (applicationSchema isEmail d) \<and>
    handleSubmit isEmail store user d =
      [FormErrors (fieldErrors [] (applicationSchema isEmail d))] \<and>
    Issue ''business_description''
      ''Please provide a detailed description (at least 20 characters)''
     \<in> set (fieldErrors [] (applicationSchema isEmail d)) \<and>
    inserts (handleSubmit isEmail store user d) = []"
proof -
  let ?i = "Issue ''business_description''
      ''Please provide a detailed description (at least 20 characters)''"
  have i: "?i \<in> set (applicationSchema isEmail d)"
    using assms by (rule schema_description_issue)
  then have ne: "applicationSchema isEmail d \<noteq> []" by auto
  have h: "handleSubmit isEmail store user d =
      [FormErrors (fieldErrors [] (applicationSchema isEmail d))]"
    using ne by (rule handleSubmit_invalid)
  obtain xs ys where split: "applicationSchema isEmail d = xs @ ?i # ys"
    and other: "\<forall>j \<in> set xs. path j \<noteq> ''business_description''"
    using schema_description_first [OF assms] by blast
  have "?i \<in> set (fieldErrors [] (xs @ ?i # ys))"
    by (rule fieldErrors_first) (simp_all add: other)
  with split have f: "?i \<in> set (fieldErrors [] (applicationSchema isEmail d))" by simp
  from i h f show ?thesis by simp
qed

theorem short_description_rejected_witness:
  "length (ApplicationFormData.business_description short_description_form) = 19 \<and>
   handleSubmit contains_at accepting_store (Some alice) short_description_form =
     [FormErrors [Issue ''business_description''
        ''Please provide a detailed description (at least 20 characters)'']] \<and>
   inserts (handleSubmit contains_at accepting_store (Some alice) short_description_form) = []"
  using short_description_rejected [where d = short_description_form
      and isEmail = contains_at and store = accepting_store and user = "Some alice"]
  by (simp add: short_description_form_def acme_form_def applicationSchema_def
      min_check_def max_check_def email_check_def contains_at_def)

end
